theory Spec2Isabelle
  imports Main "HOL-Library.Word"
begin

section \<open>Common Go values\<close>

type_synonym byte = "8 word"

text \<open>A \<^verbatim>\<open>float64\<close> is only ever passed through by the code below; it is kept as its
  IEEE-754 bit pattern.\<close>

type_synonym float64 = "64 word"

text \<open>An \<^verbatim>\<open>int32\<close> in two's complement.\<close>

type_synonym int32 = "32 word"

text \<open>Go errors: \<^verbatim>\<open>fmt.Errorf\<close> without \<^verbatim>\<open>%w\<close> gives a fresh error,
  with \<^verbatim>\<open>%w\<close> it wraps the cause behind a prefix. A run-time panic (index out of
  range, nil dereference) is not a returned error; it is kept apart as \<open>RuntimePanic\<close>.\<close>

datatype error =
    Errorf string
  | Wrapf string error
  | RuntimePanic string

text \<open>A value of type \<^verbatim>\<open>any\<close> (\<^verbatim>\<open>interface{}\<close>) with its dynamic type. \<open>AnyNil\<close> is
  the nil interface value.\<close>

datatype any =
    AnyNil
  | AnyInt int
  | AnyInt64 int
  | AnyString string
  | AnyBool bool

text \<open>\<^verbatim>\<open>strings.ToLower\<close> on ASCII text: the letters A to Z move to a to z, every other
  byte stays.\<close>

definition toLowerChar :: "char \<Rightarrow> char" where
  "toLowerChar c =
     (case map_of (zip ''ABCDEFGHIJKLMNOPQRSTUVWXYZ'' ''abcdefghijklmnopqrstuvwxyz'') c of
        Some l \<Rightarrow> l
      | None \<Rightarrow> c)"

definition ToLower :: "string \<Rightarrow> string" where
  "ToLower s = map toLowerChar s"

text \<open>\<^verbatim>\<open>base64.StdEncoding.EncodeToString\<close>: the standard alphabet of RFC 4648, three
  bytes to four characters, padded with \<^verbatim>\<open>=\<close>.\<close>

definition encodeStd :: string where
  "encodeStd = ''ABCDEFGHIJKLMNOPQRSTUVWXYZabcdefghijklmnopqrstuvwxyz0123456789+/''"

definition b64char :: "nat \<Rightarrow> char" where
  "b64char n = encodeStd ! (n mod 64)"

fun EncodeToString :: "byte list \<Rightarrow> string" where
  "EncodeToString (a # b # c # rest) =
     (let v = unat a * 65536 + unat b * 256 + unat c
      in [b64char (v div 262144), b64char (v div 4096), b64char (v div 64), b64char v])
     @ EncodeToString rest"
| "EncodeToString [a, b] =
     (let v = unat a * 65536 + unat b * 256
      in [b64char (v div 262144), b64char (v div 4096), b64char (v div 64), CHR ''=''])"
| "EncodeToString [a] =
     (let v = unat a * 65536
      in [b64char (v div 262144), b64char (v div 4096), CHR ''='', CHR ''=''])"
| "EncodeToString [] = []"

section \<open>The langchaingo interface (\<^verbatim>\<open>llms\<close>)\<close>

text \<open>The content parts of a message. \<open>OtherContent\<close> stands for every further
  implementation of \<^verbatim>\<open>llms.ContentPart\<close> (tool calls and tool responses), named by its
  Go type as \<^verbatim>\<open>%T\<close> prints it.\<close>

datatype ContentPart =
    TextContent string
  | ImageURLContent string string
  | BinaryContent string "byte list"
  | OtherContent string

definition TextPart :: "string \<Rightarrow> ContentPart" where
  "TextPart s = TextContent s"

definition BinaryPart :: "string \<Rightarrow> byte list \<Rightarrow> ContentPart" where
  "BinaryPart mime data = BinaryContent mime data"

definition ImageURLPart :: "string \<Rightarrow> ContentPart" where
  "ImageURLPart url = ImageURLContent url []"


datatype ChatMessageType =
    ChatMessageTypeAI
  | ChatMessageTypeHuman
  | ChatMessageTypeSystem
  | ChatMessageTypeGeneric
  | ChatMessageTypeFunction
  | ChatMessageTypeTool

record MessageContent =
  Role :: ChatMessageType
  Parts :: "ContentPart list"

datatype CallOption =
    WithMaxTokens int
  | WithTemperature float64
  | WithTopK int

record ContentChoice =
  Content :: string
  GenerationInfo :: "(string \<rightharpoonup> any) option"

text \<open>\<^verbatim>\<open>Choices\<close> is a slice of pointers: an entry may be nil.\<close>

record ContentResponse =
  Choices :: "ContentChoice option list"

text \<open>The interface \<^verbatim>\<open>llms.Model\<close>, by its method \<^verbatim>\<open>GenerateContent\<close>: the answer is an
  error, or a response pointer that may be nil.\<close>

type_synonym llms_Model =
  "MessageContent list \<Rightarrow> CallOption list \<Rightarrow> error + ContentResponse option"

section \<open>The Gemini client (\<^verbatim>\<open>genai\<close>)\<close>

record Blob =
  MIMEType :: string
  Data :: "byte list"

record genai_Part =
  Part_Text :: string
  Part_InlineData :: "Blob option"

record genai_Content =
  Content_Parts :: "genai_Part option list"

record Candidate =
  Candidate_Content :: "genai_Content option"

record GenerateContentResponse =
  Candidates :: "Candidate option list"

record ThinkingConfig =
  ThinkingBudget :: "int32 option"

record GenerateContentConfig =
  Config_ThinkingConfig :: "ThinkingConfig option"


type_synonym genai_Client =
  "string \<Rightarrow> genai_Content list \<Rightarrow> GenerateContentConfig option
     \<Rightarrow> error + GenerateContentResponse option"

section \<open>GoogleAIProvider\<close>

record GoogleAIProvider =
  client :: "genai_Client option"
  thinkingBudget :: "int32 option"
  model :: string








section \<open>LLMProvider\<close>

text \<open>\<^verbatim>\<open>LLM\<close> is the model behind the provider; \<^verbatim>\<open>newLLMProvider\<close> always sets one.\<close>

record LLMProvider =
  Provider :: string
  Model :: string
  LLM :: llms_Model
  Prompt :: string
  OllamaOcrMaxTokensPerPage :: int
  OllamaOcrTemperature :: "float64 option"
  OllamaOcrTopK :: "int option"

record OCRResult =
  Text :: string
  Metadata :: "string \<rightharpoonup> string"
  OcrLimitHit :: bool
  OCRResult_GenerationInfo :: "(string \<rightharpoonup> any) option"

text \<open>The two library functions \<^verbatim>\<open>ProcessImage\<close> relies on: \<^verbatim>\<open>image.Decode\<close> (an error, or
  the width and height of the decoded image) and \<^verbatim>\<open>llms.CountTokens\<close> (model name and
  text to a token count).\<close>

record externals =
  Decode :: "byte list \<Rightarrow> error + (int \<times> int)"
  CountTokens :: "string \<Rightarrow> string \<Rightarrow> int"

text \<open>The calls \<^verbatim>\<open>ProcessImage\<close> makes that can fail, in the order they are made.\<close>

datatype event =
    EvDecode "byte list"
  | EvGenerateContent "MessageContent list" "CallOption list"

text \<open>The content parts, by provider.\<close>

definition contentParts :: "LLMProvider \<Rightarrow> byte list \<Rightarrow> ContentPart list" where
  "contentParts p imageContent =
     (if ToLower (Provider p) \<noteq> ''openai''
      then [BinaryPart ''image/jpeg'' imageContent, TextPart (Prompt p)]
      else (let base64Image = EncodeToString imageContent
            in [ImageURLPart (''data:image/jpeg;base64,'' @ base64Image), TextPart (Prompt p)]))"

text \<open>The call options, appended in the order of the source.\<close>

definition callOpts :: "LLMProvider \<Rightarrow> CallOption list" where
  "callOpts p =
     (if ToLower (Provider p) = ''ollama''
      then (if OllamaOcrMaxTokensPerPage p > 0
            then [WithMaxTokens (OllamaOcrMaxTokensPerPage p)] else [])
         @ (case OllamaOcrTemperature p of Some t \<Rightarrow> [WithTemperature t] | None \<Rightarrow> [])
         @ (case OllamaOcrTopK p of Some k \<Rightarrow> [WithTopK k] | None \<Rightarrow> [])
      else [])"

text \<open>The token count of the limit check: \<open>-1\<close> to start with, the integer under
  \<^verbatim>\<open>TotalTokens\<close> when the generation info has one, the tokenizer's count when the
  count is still negative.\<close>

definition reportedTokens :: "(string \<rightharpoonup> any) option \<Rightarrow> int" where
  "reportedTokens genInfo =
     (case genInfo of
        None \<Rightarrow> - 1
      | Some g \<Rightarrow>
          (case g ''TotalTokens'' of
             Some (AnyInt v) \<Rightarrow> v
           | _ \<Rightarrow> - 1))"

definition tokenCount :: "externals \<Rightarrow> LLMProvider \<Rightarrow> ContentChoice \<Rightarrow> int" where
  "tokenCount ext p choice =
     (let tc = reportedTokens (GenerationInfo choice)
      in if tc < 0 then CountTokens ext (Model p) (Content choice) else tc)"

definition limitHit :: "externals \<Rightarrow> LLMProvider \<Rightarrow> ContentChoice \<Rightarrow> bool" where
  "limitHit ext p choice =
     (if ToLower (Provider p) = ''ollama'' \<and> OllamaOcrMaxTokensPerPage p > 0
      then tokenCount ext p choice \<ge> OllamaOcrMaxTokensPerPage p
      else False)"

text \<open>\<^verbatim>\<open>ProcessImage\<close>: the outcome, and the events on the way. The page number and the
  bounds of the decoded image are only logged.\<close>

definition ProcessImage ::
  "externals \<Rightarrow> LLMProvider \<Rightarrow> byte list \<Rightarrow> int \<Rightarrow> (error + OCRResult) \<times> event list" where
  "ProcessImage ext p imageContent pageNumber =
     (case Decode ext imageContent of
        Inl err \<Rightarrow> (Inl (Wrapf ''error decoding image: '' err), [EvDecode imageContent])
      | Inr bounds \<Rightarrow>
          (let messages = [\<lparr>Role = ChatMessageTypeHuman, Parts = contentParts p imageContent\<rparr>];
               call = [EvDecode imageContent, EvGenerateContent messages (callOpts p)]
           in case LLM p messages (callOpts p) of
                Inl err \<Rightarrow> (Inl (Wrapf ''error getting response from LLM: '' err), call)
              | Inr None \<Rightarrow> (Inl (RuntimePanic ''nil pointer dereference''), call)
              | Inr (Some completion) \<Rightarrow>
                  (case Choices completion of
                     [] \<Rightarrow> (Inl (RuntimePanic ''index out of range [0] with length 0''), call)
                   | None # _ \<Rightarrow> (Inl (RuntimePanic ''nil pointer dereference''), call)
                   | Some choice # _ \<Rightarrow>
                       (Inr \<lparr>Text = Content choice,
                            Metadata = [''provider'' \<mapsto> Provider p, ''model'' \<mapsto> Model p],
                            OcrLimitHit = limitHit ext p choice,
                            OCRResult_GenerationInfo = GenerationInfo choice\<rparr>,
                        call))))"

section \<open>The re-OCR handler of the web application\<close>

text \<open>The page results the component keeps. (The field \<^verbatim>\<open>text\<close> is written \<open>text'\<close>.)\<close>

record OCRPageResult =
  text' :: string
  ocrLimitHit :: bool
  generationInfo :: "(string \<rightharpoonup> any) option"

text \<open>The state of the component \<^verbatim>\<open>ExperimentalOCR\<close>: its \<^verbatim>\<open>useState\<close> cells and the
  \<^verbatim>\<open>lastFetchedPagesDoneRef\<close> reference. \<^verbatim>\<open>ocrResult\<close> is the combined text shown and
  saved. (The fetched document details, which the handler below neither reads nor
  writes, are left out.)\<close>

record OcrState =
  documentId :: nat
  jobId :: string
  ocrResult :: string
  status :: string
  errorMessage :: "string option"
  pagesDone :: nat
  saving :: bool
  perPageResults :: "OCRPageResult list"
  lastFetchedPagesDone :: nat
  reOcrLoading :: "nat \<rightharpoonup> bool"
  reOcrErrors :: "nat \<rightharpoonup> string"

text \<open>\<^verbatim>\<open>Array.prototype.map\<close> with the index as second argument.\<close>

definition mapIdx :: "('a \<Rightarrow> nat \<Rightarrow> 'b) \<Rightarrow> 'a list \<Rightarrow> 'b list" where
  "mapIdx f xs = map (\<lambda>(idx, res). f res idx) (enumerate 0 xs)"

text \<open>The data of the answer to \<^verbatim>\<open>POST /api/documents/:id/ocr_pages/:page/reocr\<close>, or the
  rejection of the request.\<close>

record ReOcrData =
  data_text :: string
  data_ocrLimitHit :: bool

type_synonym axios_post = "nat \<Rightarrow> nat \<Rightarrow> string + ReOcrData"

text \<open>\<^verbatim>\<open>handleReOcrPage\<close>. An index with no entry in \<^verbatim>\<open>perPageResults\<close> only records an
  error. Otherwise the request is made; on success the entry is replaced inside a
  \<^verbatim>\<open>map\<close> over the array, on failure an error is recorded; the loading flag is cleared in
  either case.\<close>

definition handleReOcrPage :: "axios_post \<Rightarrow> nat \<Rightarrow> OcrState \<Rightarrow> OcrState" where
  "handleReOcrPage post pageIdx s =
     (if \<not> pageIdx < length (perPageResults s)
      then s\<lparr>reOcrErrors := (reOcrErrors s)(pageIdx \<mapsto> ''Page data not available.'')\<rparr>
      else
        (let s1 = s\<lparr>reOcrLoading := (reOcrLoading s)(pageIdx \<mapsto> True)\<rparr>;
             s2 = s1\<lparr>reOcrErrors := (reOcrErrors s1)(pageIdx \<mapsto> [])\<rparr>;
             s3 = (case post (documentId s2) pageIdx of
                     Inr d \<Rightarrow>
                       (let s' = s2\<lparr>perPageResults :=
                                      mapIdx (\<lambda>res idx.
                                                if idx = pageIdx
                                                then \<lparr>text' = data_text d,
                                                      ocrLimitHit = data_ocrLimitHit d,
                                                      generationInfo = None\<rparr>
                                                else res)
                                             (perPageResults s2)\<rparr>
                        in if pageIdx + 1 > lastFetchedPagesDone s'
                           then s'\<lparr>lastFetchedPagesDone := pageIdx + 1\<rparr> else s')
                   | Inl err \<Rightarrow>
                       s2\<lparr>reOcrErrors := (reOcrErrors s2)(pageIdx \<mapsto> ''Failed to re-OCR page.'')\<rparr>)
         in s3\<lparr>reOcrLoading := (reOcrLoading s3)(pageIdx \<mapsto> False)\<rparr>))"

section \<open>Process start-up\<close>

text \<open>The environment: \<^verbatim>\<open>os.LookupEnv\<close> is the map itself, \<^verbatim>\<open>os.Getenv\<close> gives the empty
  string for a variable that is not set.\<close>

type_synonym environ = "string \<rightharpoonup> string"

definition Getenv :: "environ \<Rightarrow> string \<Rightarrow> string" where
  "Getenv env k = (case env k of Some v \<Rightarrow> v | None \<Rightarrow> [])"

text \<open>\<^verbatim>\<open>log.Fatal\<close> and \<^verbatim>\<open>log.Fatalf\<close> end the process: the message, or the message
  prefix with the error (\<^verbatim>\<open>%v\<close>) or the number (\<^verbatim>\<open>%d\<close>) it is formatted with.\<close>

datatype fatal =
    Fatal string
  | Fatalf_err string error
  | Fatalf_int string int

text \<open>The package variables that \<^verbatim>\<open>main\<close> and \<^verbatim>\<open>validateOrDefaultEnvVars\<close> read or
  write.\<close>

record globals =
  paperlessBaseURL :: string
  paperlessAPIToken :: string
  azureDocAIEndpoint :: string
  azureDocAIKey :: string
  azureDocAIModelID :: string
  azureDocAITimeout :: string
  AzureDocAIOutputContentFormat :: string
  openaiAPIKey :: string
  manualTag :: string
  autoTag :: string
  manualOcrTag :: string
  autoOcrTag :: string
  llmProvider :: string
  llmModel :: string
  visionLlmProvider :: string
  visionLlmModel :: string
  logLevel :: string
  listenInterface :: string
  limitOcrPages :: int
  tokenLimit :: int

definition initGlobals :: "environ \<Rightarrow> globals" where
  "initGlobals env =
     \<lparr>paperlessBaseURL = Getenv env ''PAPERLESS_BASE_URL'',
      paperlessAPIToken = Getenv env ''PAPERLESS_API_TOKEN'',
      azureDocAIEndpoint = Getenv env ''AZURE_DOCAI_ENDPOINT'',
      azureDocAIKey = Getenv env ''AZURE_DOCAI_KEY'',
      azureDocAIModelID = Getenv env ''AZURE_DOCAI_MODEL_ID'',
      azureDocAITimeout = Getenv env ''AZURE_DOCAI_TIMEOUT_SECONDS'',
      AzureDocAIOutputContentFormat = Getenv env ''AZURE_DOCAI_OUTPUT_CONTENT_FORMAT'',
      openaiAPIKey = Getenv env ''OPENAI_API_KEY'',
      manualTag = Getenv env ''MANUAL_TAG'',
      autoTag = Getenv env ''AUTO_TAG'',
      manualOcrTag = Getenv env ''MANUAL_OCR_TAG'',
      autoOcrTag = Getenv env ''AUTO_OCR_TAG'',
      llmProvider = Getenv env ''LLM_PROVIDER'',
      llmModel = Getenv env ''LLM_MODEL'',
      visionLlmProvider = Getenv env ''VISION_LLM_PROVIDER'',
      visionLlmModel = Getenv env ''VISION_LLM_MODEL'',
      logLevel = ToLower (Getenv env ''LOG_LEVEL''),
      listenInterface = Getenv env ''LISTEN_INTERFACE'',
      limitOcrPages = 0,
      tokenLimit = 0\<rparr>"

text \<open>The configuration handed to \<^verbatim>\<open>ocr.NewProvider\<close>: the fields \<^verbatim>\<open>main\<close> sets, and
  those \<^verbatim>\<open>newLLMProvider\<close> and \<^verbatim>\<open>createGoogleAIClient\<close> read, which \<^verbatim>\<open>main\<close> leaves at
  their zero value.\<close>

record Config =
  Config_Provider :: string
  GoogleProjectID :: string
  GoogleLocation :: string
  GoogleProcessorID :: string
  VisionLLMProvider :: string
  VisionLLMModel :: string
  VisionLLMPrompt :: string
  AzureEndpoint :: string
  AzureAPIKey :: string
  AzureModelID :: string
  AzureTimeout :: int
  AzureOutputContentFormat :: string
  Config_OllamaOcrMaxTokensPerPage :: int
  Config_OllamaOcrTemperature :: "float64 option"
  Config_OllamaOcrTopK :: "int option"
  VisionLLMThinkingBudget :: int32

text \<open>An OCR provider is its \<^verbatim>\<open>ProcessImage\<close> method.\<close>

type_synonym Provider = "byte list \<Rightarrow> int \<Rightarrow> error + OCRResult"

text \<open>The dependencies of \<^verbatim>\<open>App\<close> that start-up decides on. (The Paperless client and the
  database handle come from constructors in other files of the package and are not read
  here.)\<close>

record App =
  App_LLM :: "llms_Model option"
  VisionLLM :: "llms_Model option"
  ocrProvider :: "Provider option"

definition isOcrEnabled :: "App \<Rightarrow> bool" where
  "isOcrEnabled app = (ocrProvider app \<noteq> None)"

text \<open>What start-up depends on beyond the environment: \<^verbatim>\<open>strconv.Atoi\<close>; the
  rune-aware \<^verbatim>\<open>strings.ToLower\<close> and \<^verbatim>\<open>strings.Title\<close> applied to the language name,
  which may be any text;
  \<^verbatim>\<open>InitializeDB\<close> and \<^verbatim>\<open>loadTemplates\<close>, which work on the file system and either end
  the process or return; the execution of the loaded OCR prompt template on the likely
  language; the constructors of the model clients (\<^verbatim>\<open>openai.New\<close> with model and
  token, \<^verbatim>\<open>ollama.New\<close> with model and server URL, \<^verbatim>\<open>NewGoogleAIProvider\<close> of package
  \<^verbatim>\<open>main\<close> with model, key and thinking budget); and \<^verbatim>\<open>ocr.NewProvider\<close>.\<close>

record startup_externals =
  Atoi :: "string \<Rightarrow> error + int"
  strings_ToLower :: "string \<Rightarrow> string"
  strings_Title :: "string \<Rightarrow> string"
  InitializeDB :: "fatal option"
  loadTemplates :: "fatal option"
  ocrTemplate_Execute :: "string \<Rightarrow> error + string"
  openai_New :: "string \<Rightarrow> string \<Rightarrow> error + llms_Model"
  ollama_New :: "string \<Rightarrow> string \<Rightarrow> error + llms_Model"
  main_NewGoogleAIProvider :: "string \<Rightarrow> string \<Rightarrow> int32 option \<Rightarrow> error + llms_Model"
  NewProvider :: "Config \<Rightarrow> error + Provider option"

text \<open>\<^verbatim>\<open>validateOrDefaultEnvVars\<close>: first the defaults of the four tags, then the checks,
  each of which ends the process when it fails.\<close>

definition defaultTags :: "globals \<Rightarrow> globals" where
  "defaultTags g0 =
     (let g1 = (if manualTag g0 = [] then g0\<lparr>manualTag := ''paperless-gpt''\<rparr> else g0);
          g2 = (if autoTag g1 = [] then g1\<lparr>autoTag := ''paperless-gpt-auto''\<rparr> else g1);
          g3 = (if manualOcrTag g2 = [] then g2\<lparr>manualOcrTag := ''paperless-gpt-ocr''\<rparr> else g2)
      in if autoOcrTag g3 = [] then g3\<lparr>autoOcrTag := ''paperless-gpt-ocr-auto''\<rparr> else g3)"

definition validateOrDefaultEnvVars ::
  "startup_externals \<Rightarrow> environ \<Rightarrow> globals \<Rightarrow> fatal + globals" where
  "validateOrDefaultEnvVars ext env g0 =
     (let g = defaultTags g0
      in if paperlessBaseURL g = []
         then Inl (Fatal ''Please set the PAPERLESS_BASE_URL environment variable.'')
         else if paperlessAPIToken g = []
         then Inl (Fatal ''Please set the PAPERLESS_API_TOKEN environment variable.'')
         else if llmProvider g = []
         then Inl (Fatal ''Please set the LLM_PROVIDER environment variable.'')
         else if visionLlmProvider g \<noteq> [] \<and> visionLlmProvider g \<noteq> ''openai''
                 \<and> visionLlmProvider g \<noteq> ''ollama''
         then Inl (Fatal (''Please set the VISION_LLM_PROVIDER environment variable to ''
                          @ [CHR 0x27] @ ''openai'' @ [CHR 0x27] @ '' or ''
                          @ [CHR 0x27] @ ''ollama'' @ [CHR 0x27] @ ''.''))
         else if llmProvider g \<noteq> ''openai'' \<and> llmProvider g \<noteq> ''ollama''
                 \<and> llmProvider g \<noteq> ''googleai''
         then Inl (Fatal (''Please set the LLM_PROVIDER environment variable to ''
                          @ [CHR 0x27] @ ''openai'' @ [CHR 0x27] @ '', ''
                          @ [CHR 0x27] @ ''ollama'' @ [CHR 0x27] @ '', or ''
                          @ [CHR 0x27] @ ''googleai'' @ [CHR 0x27] @ ''.''))
         else if Getenv env ''OCR_PROVIDER'' = ''azure'' \<and> azureDocAIEndpoint g = []
         then Inl (Fatal
           ''Please set the AZURE_DOCAI_ENDPOINT environment variable for Azure provider'')
         else if Getenv env ''OCR_PROVIDER'' = ''azure'' \<and> azureDocAIKey g = []
         then Inl (Fatal
           ''Please set the AZURE_DOCAI_KEY environment variable for Azure provider'')
         else if llmModel g = []
         then Inl (Fatal ''Please set the LLM_MODEL environment variable.'')
         else if (llmProvider g = ''openai'' \<or> visionLlmProvider g = ''openai'')
                 \<and> openaiAPIKey g = []
         then Inl (Fatal
           ''Please set the OPENAI_API_KEY environment variable for OpenAI provider.'')
         else if Getenv env ''TOKEN_LIMIT'' \<noteq> []
         then (case Atoi ext (Getenv env ''TOKEN_LIMIT'') of
                 Inr parsed \<Rightarrow>
                   if parsed < 0
                   then Inl (Fatalf_int ''TOKEN_LIMIT must be non-negative, got: '' parsed)
                   else Inr (g\<lparr>tokenLimit := parsed\<rparr>)
               | Inl err \<Rightarrow> Inr g)
         else Inr g)"

definition initLogger :: "globals \<Rightarrow> fatal option" where
  "initLogger g =
     (if logLevel g = ''debug'' \<or> logLevel g = ''info'' \<or> logLevel g = ''warn''
         \<or> logLevel g = ''error''
      then None
      else if logLevel g \<noteq> []
      then Some (Fatal (''Invalid log level: '' @ [CHR 0x27] @ logLevel g @ [CHR 0x27] @ ''.''))
      else None)"

text \<open>\<^verbatim>\<open>strings.Title\<close> as it works on ASCII text, for the samples below: a letter is put
  in upper case when the byte before it is a word separator (anything but a letter, a
  digit or an underscore), and so is a letter at the start.\<close>

definition toUpperChar :: "char \<Rightarrow> char" where
  "toUpperChar c =
     (case map_of (zip ''abcdefghijklmnopqrstuvwxyz'' ''ABCDEFGHIJKLMNOPQRSTUVWXYZ'') c of
        Some u \<Rightarrow> u
      | None \<Rightarrow> c)"

definition isSeparator :: "char \<Rightarrow> bool" where
  "isSeparator c =
     (of_char c \<le> (127::nat)
      \<and> c \<notin> set ''0123456789abcdefghijklmnopqrstuvwxyzABCDEFGHIJKLMNOPQRSTUVWXYZ_'')"

fun titleFrom :: "char \<Rightarrow> string \<Rightarrow> string" where
  "titleFrom prev [] = []"
| "titleFrom prev (c # cs) =
     (if isSeparator prev then toUpperChar c else c) # titleFrom c cs"

definition Title :: "string \<Rightarrow> string" where
  "Title s = titleFrom (CHR '' '') s"

text \<open>\<^verbatim>\<open>getLikelyLanguage\<close>, with the two library functions as start-up has them.\<close>

definition getLikelyLanguage :: "startup_externals \<Rightarrow> environ \<Rightarrow> string" where
  "getLikelyLanguage ext env =
     (let likelyLanguage = Getenv env ''LLM_LANGUAGE'';
          likelyLanguage = (if likelyLanguage = [] then ''English'' else likelyLanguage)
      in strings_Title ext (strings_ToLower ext likelyLanguage))"

definition ollamaHost :: "environ \<Rightarrow> string" where
  "ollamaHost env =
     (if Getenv env ''OLLAMA_HOST'' = [] then ''http://127.0.0.1:11434''
      else Getenv env ''OLLAMA_HOST'')"

definition createLLM ::
  "startup_externals \<Rightarrow> environ \<Rightarrow> globals \<Rightarrow> error + llms_Model option" where
  "createLLM ext env g =
     (if ToLower (llmProvider g) = ''openai''
      then (if openaiAPIKey g = [] then Inl (Errorf ''OpenAI API key is not set'')
            else map_sum id Some (openai_New ext (llmModel g) (openaiAPIKey g)))
      else if ToLower (llmProvider g) = ''ollama''
      then map_sum id Some (ollama_New ext (llmModel g) (ollamaHost env))
      else if ToLower (llmProvider g) = ''googleai''
      then (let apiKey = Getenv env ''GOOGLEAI_API_KEY'';
                thinkingBudget =
                  (case env ''GOOGLEAI_THINKING_BUDGET'' of
                     Some val \<Rightarrow>
                       (case Atoi ext val of
                          Inr v \<Rightarrow> Some (word_of_int v :: int32)
                        | Inl err \<Rightarrow> None)
                   | None \<Rightarrow> None)
            in case main_NewGoogleAIProvider ext (llmModel g) apiKey thinkingBudget of
                 Inl err \<Rightarrow> Inl (Wrapf ''failed to create GoogleAI provider: '' err)
               | Inr provider \<Rightarrow> Inr (Some provider))
      else Inl (Errorf (''unsupported LLM provider: '' @ llmProvider g
                        @ '' (supported: openai, ollama, googleai)'')))"

definition createVisionLLM ::
  "startup_externals \<Rightarrow> environ \<Rightarrow> globals \<Rightarrow> error + llms_Model option" where
  "createVisionLLM ext env g =
     (if ToLower (visionLlmProvider g) = ''openai''
      then (if openaiAPIKey g = [] then Inl (Errorf ''OpenAI API key is not set'')
            else map_sum id Some (openai_New ext (visionLlmModel g) (openaiAPIKey g)))
      else if ToLower (visionLlmProvider g) = ''ollama''
      then map_sum id Some (ollama_New ext (visionLlmModel g) (ollamaHost env))
      else Inr None)"

text \<open>The steps of \<^verbatim>\<open>main\<close> up to the OCR provider: validation, logger, database,
  templates, the two model clients, the provider type and the OCR prompt.\<close>

record before_ocr =
  pre_globals :: globals
  pre_llm :: "llms_Model option"
  pre_visionLlm :: "llms_Model option"
  pre_providerType :: string
  pre_ocrPrompt :: string

definition startupBeforeOcr :: "startup_externals \<Rightarrow> environ \<Rightarrow> fatal + before_ocr" where
  "startupBeforeOcr ext env =
     (case validateOrDefaultEnvVars ext env (initGlobals env) of
        Inl f \<Rightarrow> Inl f
      | Inr g \<Rightarrow>
     (case initLogger g of
        Some f \<Rightarrow> Inl f
      | None \<Rightarrow>
     (case InitializeDB ext of
        Some f \<Rightarrow> Inl f
      | None \<Rightarrow>
     (case loadTemplates ext of
        Some f \<Rightarrow> Inl f
      | None \<Rightarrow>
     (case createLLM ext env g of
        Inl err \<Rightarrow> Inl (Fatalf_err ''Failed to create LLM client: '' err)
      | Inr llm \<Rightarrow>
     (case createVisionLLM ext env g of
        Inl err \<Rightarrow> Inl (Fatalf_err ''Failed to create Vision LLM client: '' err)
      | Inr visionLlm \<Rightarrow>
     (let providerType =
            (if Getenv env ''OCR_PROVIDER'' = [] then ''llm'' else Getenv env ''OCR_PROVIDER'')
      in case ocrTemplate_Execute ext (getLikelyLanguage ext env) of
           Inl err \<Rightarrow> Inl (Fatalf_err ''error executing tag template: '' err)
         | Inr ocrPrompt \<Rightarrow>
             Inr \<lparr>pre_globals = g, pre_llm = llm, pre_visionLlm = visionLlm,
                  pre_providerType = providerType, pre_ocrPrompt = ocrPrompt\<rparr>)))))))"

definition ocrConfig :: "startup_externals \<Rightarrow> environ \<Rightarrow> before_ocr \<Rightarrow> Config" where
  "ocrConfig ext env pre =
     (let g = pre_globals pre;
          cfg = \<lparr>Config_Provider = pre_providerType pre,
                 GoogleProjectID = Getenv env ''GOOGLE_PROJECT_ID'',
                 GoogleLocation = Getenv env ''GOOGLE_LOCATION'',
                 GoogleProcessorID = Getenv env ''GOOGLE_PROCESSOR_ID'',
                 VisionLLMProvider = visionLlmProvider g,
                 VisionLLMModel = visionLlmModel g,
                 VisionLLMPrompt = pre_ocrPrompt pre,
                 AzureEndpoint = azureDocAIEndpoint g,
                 AzureAPIKey = azureDocAIKey g,
                 AzureModelID = azureDocAIModelID g,
                 AzureTimeout = 0,
                 AzureOutputContentFormat = AzureDocAIOutputContentFormat g,
                 Config_OllamaOcrMaxTokensPerPage = 0,
                 Config_OllamaOcrTemperature = None,
                 Config_OllamaOcrTopK = None,
                 VisionLLMThinkingBudget = 0\<rparr>
      in if azureDocAITimeout g \<noteq> []
         then (case Atoi ext (azureDocAITimeout g) of
                 Inr timeout \<Rightarrow> cfg\<lparr>AzureTimeout := timeout\<rparr>
               | Inl err \<Rightarrow> cfg)
         else cfg)"

text \<open>The OCR provider: none when the provider type is \<^verbatim>\<open>llm\<close> and no vision provider is
  named, else what \<^verbatim>\<open>ocr.NewProvider\<close> gives.\<close>

definition initOcrProvider ::
  "startup_externals \<Rightarrow> environ \<Rightarrow> before_ocr \<Rightarrow> fatal + Provider option" where
  "initOcrProvider ext env pre =
     (if pre_providerType pre = ''llm'' \<and> visionLlmProvider (pre_globals pre) = []
      then Inr None
      else (case NewProvider ext (ocrConfig ext env pre) of
              Inl err \<Rightarrow> Inl (Fatalf_err ''Failed to initialize OCR provider: '' err)
            | Inr provider \<Rightarrow> Inr provider))"

text \<open>The process as \<^verbatim>\<open>main\<close> leaves it at the call of \<^verbatim>\<open>router.Run\<close>: the
  dependencies, the package variables, the count \<^verbatim>\<open>numWorkers\<close> it has passed to
  \<^verbatim>\<open>startWorkerPool\<close> and the listen address. (The background tasks and the routes
  registered on the way change none of these.)\<close>

record serving =
  app :: App
  serving_globals :: globals
  numWorkers :: int
  listen :: string

definition main :: "startup_externals \<Rightarrow> environ \<Rightarrow> fatal + serving" where
  "main ext env =
     (case startupBeforeOcr ext env of
        Inl f \<Rightarrow> Inl f
      | Inr pre \<Rightarrow>
     (case initOcrProvider ext env pre of
        Inl f \<Rightarrow> Inl f
      | Inr provider \<Rightarrow>
     (let app = \<lparr>App_LLM = pre_llm pre, VisionLLM = pre_visionLlm pre, ocrProvider = provider\<rparr>;
          g = pre_globals pre
      in case (if isOcrEnabled app
               then (if Getenv env ''OCR_LIMIT_PAGES'' = [] then Inr (g\<lparr>limitOcrPages := 5\<rparr>)
                     else (case Atoi ext (Getenv env ''OCR_LIMIT_PAGES'') of
                             Inr n \<Rightarrow> Inr (g\<lparr>limitOcrPages := n\<rparr>)
                           | Inl err \<Rightarrow> Inl (Fatalf_err ''Invalid OCR_LIMIT_PAGES value: '' err)))
               else Inr g) of
           Inl f \<Rightarrow> Inl f
         | Inr g' \<Rightarrow>
             (let workerCount = 1;
                  g'' = (if listenInterface g' = [] then g'\<lparr>listenInterface := '':8080''\<rparr> else g')
              in Inr \<lparr>app = app, serving_globals = g'', numWorkers = workerCount,
                      listen = listenInterface g''\<rparr>))))"

section \<open>Sample providers and answers\<close>

text \<open>Concrete values on which the definitions are run: a decoder that rejects the empty
  input, a tokenizer that counts one token per byte, models that give a fixed answer.\<close>

definition sample_externals :: externals where
  "sample_externals =
     \<lparr>Decode = (\<lambda>bs. if bs = [] then Inl (Errorf ''image: unknown format'') else Inr (1, 1)),
      CountTokens = (\<lambda>m t. int (length t))\<rparr>"

definition fixed_Model :: "ContentResponse option \<Rightarrow> llms_Model" where
  "fixed_Model r messages opts = Inr r"

definition sample_choice :: ContentChoice where
  "sample_choice =
     \<lparr>Content = ''Hello'', GenerationInfo = Some [''TotalTokens'' \<mapsto> AnyInt 7]\<rparr>"

definition sample_ollama :: LLMProvider where
  "sample_ollama =
     \<lparr>Provider = ''ollama'', Model = ''llava'',
      LLM = fixed_Model (Some \<lparr>Choices = [Some sample_choice]\<rparr>),
      Prompt = ''Transcribe'', OllamaOcrMaxTokensPerPage = 5,
      OllamaOcrTemperature = None, OllamaOcrTopK = Some 40\<rparr>"

definition sample_openai :: LLMProvider where
  "sample_openai =
     \<lparr>Provider = ''OpenAI'', Model = ''gpt-4o'',
      LLM = fixed_Model (Some \<lparr>Choices = [Some sample_choice]\<rparr>),
      Prompt = ''Transcribe'', OllamaOcrMaxTokensPerPage = 5,
      OllamaOcrTemperature = None, OllamaOcrTopK = Some 40\<rparr>"





text \<open>A component state with three pages, and a server that answers every re-OCR request
  with the same data.\<close>

definition sample_state :: OcrState where
  "sample_state =
     \<lparr>documentId = 544, jobId = ''job-1'', ocrResult = ''ABC'',
      status = ''OCR completed successfully.'', errorMessage = None, pagesDone = 3,
      saving = False,
      perPageResults =
        [\<lparr>text' = ''A'', ocrLimitHit = False, generationInfo = None\<rparr>,
         \<lparr>text' = ''B'', ocrLimitHit = True,
          generationInfo = Some [''TotalTokens'' \<mapsto> AnyInt 7]\<rparr>,
         \<lparr>text' = ''C'', ocrLimitHit = False, generationInfo = None\<rparr>],
      lastFetchedPagesDone = 3, reOcrLoading = Map.empty, reOcrErrors = Map.empty\<rparr>"

definition sample_post :: axios_post where
  "sample_post doc pageIdx = Inr \<lparr>data_text = ''B2'', data_ocrLimitHit = False\<rparr>"

text \<open>An environment that names the Paperless server and an Ollama text model and nothing
  else, and collaborators that succeed, except that \<^verbatim>\<open>ocr.NewProvider\<close> refuses every
  configuration.\<close>

definition sample_environ :: environ where
  "sample_environ =
     [''PAPERLESS_BASE_URL'' \<mapsto> ''http://paperless:8000'',
      ''PAPERLESS_API_TOKEN'' \<mapsto> ''token'',
      ''LLM_PROVIDER'' \<mapsto> ''ollama'',
      ''LLM_MODEL'' \<mapsto> ''llama3'']"

text \<open>The same environment with a request for four workers added, under two names.\<close>

definition sample_environ_four_workers :: environ where
  "sample_environ_four_workers =
     sample_environ(''NUM_WORKERS'' \<mapsto> ''4'', ''OCR_WORKERS'' \<mapsto> ''4'')"

text \<open>The package variables after validation in that environment.\<close>

definition sample_globals :: globals where
  "sample_globals =
     \<lparr>paperlessBaseURL = ''http://paperless:8000'', paperlessAPIToken = ''token'',
      azureDocAIEndpoint = [], azureDocAIKey = [], azureDocAIModelID = [],
      azureDocAITimeout = [], AzureDocAIOutputContentFormat = [], openaiAPIKey = [],
      manualTag = ''paperless-gpt'', autoTag = ''paperless-gpt-auto'',
      manualOcrTag = ''paperless-gpt-ocr'', autoOcrTag = ''paperless-gpt-ocr-auto'',
      llmProvider = ''ollama'', llmModel = ''llama3'', visionLlmProvider = [],
      visionLlmModel = [], logLevel = [], listenInterface = [], limitOcrPages = 0,
      tokenLimit = 0\<rparr>"

definition sample_startup :: startup_externals where
  "sample_startup =
     \<lparr>Atoi = (\<lambda>s. Inl (Errorf ''invalid syntax'')),
      strings_ToLower = ToLower,
      strings_Title = Title,
      InitializeDB = None,
      loadTemplates = None,
      ocrTemplate_Execute = (\<lambda>language. Inr (''Transcribe. Language: '' @ language)),
      openai_New = (\<lambda>m token. Inl (Errorf ''no route to host'')),
      ollama_New = (\<lambda>m url. Inr (fixed_Model None)),
      main_NewGoogleAIProvider = (\<lambda>m key budget. Inl (Errorf ''no route to host'')),
      NewProvider = (\<lambda>cfg. Inl (Errorf ''unsupported OCR provider''))\<rparr>"

section \<open>Evaluation of the samples\<close>

lemma ToLower_samples [simp]:
  "ToLower ''ollama'' = ''ollama''" "ToLower ''OpenAI'' = ''openai''"
  "ToLower ''googleai'' = ''googleai''"
  by (simp_all add: ToLower_def toLowerChar_def)

section \<open>Properties of the vision-LLM backend\<close>

lemma ProcessImage_Inr:
  assumes "fst (ProcessImage ext p imageContent pageNumber) = Inr result"
  obtains bounds completion choice rest where
    "Decode ext imageContent = Inr bounds"
    "LLM p [\<lparr>Role = ChatMessageTypeHuman, Parts = contentParts p imageContent\<rparr>] (callOpts p)
       = Inr (Some completion)"
    "Choices completion = Some choice # rest"
    "result = \<lparr>Text = Content choice,
               Metadata = [''provider'' \<mapsto> Provider p, ''model'' \<mapsto> Model p],
               OcrLimitHit = limitHit ext p choice,
               OCRResult_GenerationInfo = GenerationInfo choice\<rparr>"
  using assms
  by (auto simp: ProcessImage_def Let_def split: sum.splits option.splits list.splits)

lemma WithMaxTokens_callOpts:
  "WithMaxTokens b \<in> set (callOpts p) \<longleftrightarrow>
     ToLower (Provider p) = ''ollama'' \<and> 0 < OllamaOcrMaxTokensPerPage p
     \<and> b = OllamaOcrMaxTokensPerPage p"
  by (auto simp: callOpts_def split: option.splits)

text \<open>
  Claim C1. When a maximum-output-token bound is configured, that is when the request
  carries \<^verbatim>\<open>WithMaxTokens bound\<close> (which it does exactly for Ollama with a positive
  \<^verbatim>\<open>OllamaOcrMaxTokensPerPage\<close>, the bound), every successful \<^verbatim>\<open>ProcessImage\<close> call
  returns the content of the first choice, and its \<^verbatim>\<open>OcrLimitHit\<close> compares a token
  count with the bound by \<open>\<ge>\<close>: the count is the usage the backend reported under
  \<^verbatim>\<open>TotalTokens\<close> in the generation info when there is one (an \<^verbatim>\<open>int\<close> that is not
  negative), and otherwise the count \<^verbatim>\<open>llms.CountTokens\<close> computes from the returned text
  for the provider's model.
\<close>

theorem ProcessImage_token_limit_detection:
  assumes "WithMaxTokens bound \<in> set (callOpts p)"
    and "fst (ProcessImage ext p imageContent pageNumber) = Inr result"
  shows "\<exists>completion choice rest.
           LLM p [\<lparr>Role = ChatMessageTypeHuman, Parts = contentParts p imageContent\<rparr>] (callOpts p)
             = Inr (Some completion)
         \<and> Choices completion = Some choice # rest
         \<and> Text result = Content choice
         \<and> (\<forall>g v. GenerationInfo choice = Some g \<and> g ''TotalTokens'' = Some (AnyInt v) \<and> 0 \<le> v
               \<longrightarrow> OcrLimitHit result = (v \<ge> bound))
         \<and> ((\<nexists>g v. GenerationInfo choice = Some g \<and> g ''TotalTokens'' = Some (AnyInt v) \<and> 0 \<le> v)
               \<longrightarrow> OcrLimitHit result = (CountTokens ext (Model p) (Text result) \<ge> bound))"
proof -
  from assms(2) obtain bounds completion choice rest where
    "Decode ext imageContent = Inr bounds"
    and llm: "LLM p [\<lparr>Role = ChatMessageTypeHuman, Parts = contentParts p imageContent\<rparr>] (callOpts p)
            = Inr (Some completion)"
    and ch: "Choices completion = Some choice # rest"
    and res: "result = \<lparr>Text = Content choice,
               Metadata = [''provider'' \<mapsto> Provider p, ''model'' \<mapsto> Model p],
               OcrLimitHit = limitHit ext p choice,
               OCRResult_GenerationInfo = GenerationInfo choice\<rparr>"
    by (rule ProcessImage_Inr)
  from assms(1) have cfg: "ToLower (Provider p) = ''ollama''" "0 < OllamaOcrMaxTokensPerPage p"
    "bound = OllamaOcrMaxTokensPerPage p"
    by (simp_all add: WithMaxTokens_callOpts)
  have hit: "OcrLimitHit result = (tokenCount ext p choice \<ge> bound)"
    using res cfg by (simp add: limitHit_def)
  have reported: "tokenCount ext p choice = v"
    if "GenerationInfo choice = Some g" "g ''TotalTokens'' = Some (AnyInt v)" "0 \<le> v" for g v
    using that by (simp add: tokenCount_def reportedTokens_def)
  have counted: "tokenCount ext p choice = CountTokens ext (Model p) (Content choice)"
    if "\<nexists>g v. GenerationInfo choice = Some g \<and> g ''TotalTokens'' = Some (AnyInt v) \<and> 0 \<le> v"
    using that
    by (auto simp: tokenCount_def reportedTokens_def Let_def split: option.splits any.splits)
  have content: "Text result = Content choice" using res by simp
  have "LLM p [\<lparr>Role = ChatMessageTypeHuman, Parts = contentParts p imageContent\<rparr>] (callOpts p)
             = Inr (Some completion)
         \<and> Choices completion = Some choice # rest
         \<and> Text result = Content choice
         \<and> (\<forall>g v. GenerationInfo choice = Some g \<and> g ''TotalTokens'' = Some (AnyInt v) \<and> 0 \<le> v
               \<longrightarrow> OcrLimitHit result = (v \<ge> bound))
         \<and> ((\<nexists>g v. GenerationInfo choice = Some g \<and> g ''TotalTokens'' = Some (AnyInt v) \<and> 0 \<le> v)
               \<longrightarrow> OcrLimitHit result = (CountTokens ext (Model p) (Text result) \<ge> bound))"
  proof (intro conjI allI impI)
    show "LLM p [\<lparr>Role = ChatMessageTypeHuman, Parts = contentParts p imageContent\<rparr>] (callOpts p)
             = Inr (Some completion)" by (rule llm)
    show "Choices completion = Some choice # rest" by (rule ch)
    show "Text result = Content choice" by (rule content)
    show "OcrLimitHit result = (v \<ge> bound)"
      if "GenerationInfo choice = Some g \<and> g ''TotalTokens'' = Some (AnyInt v) \<and> 0 \<le> v" for g v
      using that hit reported [of g v] by simp
    show "OcrLimitHit result = (CountTokens ext (Model p) (Text result) \<ge> bound)"
      if "\<nexists>g v. GenerationInfo choice = Some g \<and> g ''TotalTokens'' = Some (AnyInt v) \<and> 0 \<le> v"
      using counted [OF that] hit content by simp
  qed
  then show ?thesis by blast
qed

theorem ProcessImage_token_limit_detection_witness:
  "WithMaxTokens 5 \<in> set (callOpts sample_ollama)
   \<and> fst (ProcessImage sample_externals sample_ollama [1] 0)
       = Inr \<lparr>Text = ''Hello'',
              Metadata = [''provider'' \<mapsto> ''ollama'', ''model'' \<mapsto> ''llava''],
              OcrLimitHit = True,
              OCRResult_GenerationInfo = Some [''TotalTokens'' \<mapsto> AnyInt 7]\<rparr>"
proof -
  have opts: "WithMaxTokens 5 \<in> set (callOpts sample_ollama)"
    by (simp add: callOpts_def sample_ollama_def)
  have run: "fst (ProcessImage sample_externals sample_ollama [1] 0)
       = Inr \<lparr>Text = ''Hello'',
              Metadata = [''provider'' \<mapsto> ''ollama'', ''model'' \<mapsto> ''llava''],
              OcrLimitHit = True,
              OCRResult_GenerationInfo = Some [''TotalTokens'' \<mapsto> AnyInt 7]\<rparr>"
    by (simp add: ProcessImage_def sample_externals_def sample_ollama_def fixed_Model_def
          sample_choice_def limitHit_def tokenCount_def reportedTokens_def)
  from ProcessImage_token_limit_detection [OF opts run] opts run show ?thesis by simp
qed

text \<open>
  Claim C4. A provider other than Ollama with a positive
  \<^verbatim>\<open>OllamaOcrMaxTokensPerPage\<close> does not track the generation length: every successful
  \<^verbatim>\<open>ProcessImage\<close> result of such a provider has \<^verbatim>\<open>OcrLimitHit\<close> false, whatever the
  model answered.
\<close>

theorem ProcessImage_no_tracking_no_limit_hit:
  assumes "\<not> (ToLower (Provider p) = ''ollama'' \<and> OllamaOcrMaxTokensPerPage p > 0)"
    and "fst (ProcessImage ext p imageContent pageNumber) = Inr result"
  shows "OcrLimitHit result = False"
  using assms
  by (auto simp: ProcessImage_def limitHit_def Let_def
           split: sum.splits option.splits list.splits)

theorem ProcessImage_no_tracking_no_limit_hit_witness:
  "\<not> (ToLower (Provider sample_openai) = ''ollama'' \<and> OllamaOcrMaxTokensPerPage sample_openai > 0)
   \<and> \<not> isl (fst (ProcessImage sample_externals sample_openai [1] 0))
   \<and> OcrLimitHit (projr (fst (ProcessImage sample_externals sample_openai [1] 0))) = False"
proof -
  have prov: "\<not> (ToLower (Provider sample_openai) = ''ollama''
                 \<and> OllamaOcrMaxTokensPerPage sample_openai > 0)"
    by (simp add: sample_openai_def)
  have ok: "\<not> isl (fst (ProcessImage sample_externals sample_openai [1] 0))"
    by (simp add: ProcessImage_def sample_externals_def sample_openai_def fixed_Model_def
          sample_choice_def)
  then have run: "fst (ProcessImage sample_externals sample_openai [1] 0)
                    = Inr (projr (fst (ProcessImage sample_externals sample_openai [1] 0)))"
    by (cases "fst (ProcessImage sample_externals sample_openai [1] 0)") simp_all
  from ProcessImage_no_tracking_no_limit_hit [OF prov run] prov ok show ?thesis by simp
qed


lemma ProcessImage_zero_choices_panics:
  assumes "Decode ext imageContent = Inr bounds"
    and "LLM p [\<lparr>Role = ChatMessageTypeHuman, Parts = contentParts p imageContent\<rparr>] (callOpts p)
           = Inr (Some \<lparr>Choices = []\<rparr>)"
  shows "fst (ProcessImage ext p imageContent pageNumber)
           = Inl (RuntimePanic ''index out of range [0] with length 0'')"
  using assms by (simp add: ProcessImage_def)

text \<open>
  Claim C6. Whatever request \<^verbatim>\<open>ProcessImage\<close> sends to the model, it carries
  \<^verbatim>\<open>WithMaxTokens\<close> only for Ollama with a positive \<^verbatim>\<open>OllamaOcrMaxTokensPerPage\<close> (and
  then with that value), \<^verbatim>\<open>WithTemperature\<close> only for Ollama with a temperature set,
  \<^verbatim>\<open>WithTopK\<close> only for Ollama with a top-K set, each at most once; an option that is
  not configured, or any option for another backend, is not in the request.
\<close>

theorem ProcessImage_options_only_when_configured:
  assumes "EvGenerateContent messages opts \<in> set (snd (ProcessImage ext p imageContent pageNumber))"
  shows "(WithMaxTokens b \<in> set opts \<longleftrightarrow>
            ToLower (Provider p) = ''ollama'' \<and> 0 < OllamaOcrMaxTokensPerPage p
            \<and> b = OllamaOcrMaxTokensPerPage p)
       \<and> (WithTemperature t \<in> set opts \<longleftrightarrow>
            ToLower (Provider p) = ''ollama'' \<and> OllamaOcrTemperature p = Some t)
       \<and> (WithTopK k \<in> set opts \<longleftrightarrow>
            ToLower (Provider p) = ''ollama'' \<and> OllamaOcrTopK p = Some k)
       \<and> distinct opts"
proof -
  from assms have "opts = callOpts p"
    by (auto simp: ProcessImage_def Let_def split: sum.splits option.splits list.splits)
  then show ?thesis
    by (auto simp: callOpts_def split: option.splits)
qed

theorem ProcessImage_options_only_when_configured_witness:
  "EvGenerateContent
     [\<lparr>Role = ChatMessageTypeHuman,
       Parts = [BinaryContent ''image/jpeg'' [1], TextContent ''Transcribe'']\<rparr>]
     [WithMaxTokens 5, WithTopK 40]
     \<in> set (snd (ProcessImage sample_externals sample_ollama [1] 0))
   \<and> WithMaxTokens 5 \<in> set [WithMaxTokens 5, WithTopK 40]
   \<and> WithTemperature 0 \<notin> set [WithMaxTokens 5, WithTopK 40]"
proof -
  have sent: "EvGenerateContent
     [\<lparr>Role = ChatMessageTypeHuman,
       Parts = [BinaryContent ''image/jpeg'' [1], TextContent ''Transcribe'']\<rparr>]
     [WithMaxTokens 5, WithTopK 40]
     \<in> set (snd (ProcessImage sample_externals sample_ollama [1] 0))"
    by (simp add: ProcessImage_def sample_externals_def sample_ollama_def fixed_Model_def
          sample_choice_def callOpts_def contentParts_def BinaryPart_def TextPart_def)
  from ProcessImage_options_only_when_configured [OF sent, of 5 0 40] sent
  show ?thesis by (simp add: sample_ollama_def)
qed

text \<open>
  Claim C7. When the image bytes do not decode, \<^verbatim>\<open>ProcessImage\<close> returns the decoder's
  error, wrapped, and no result; the decoder has been called once and the model not at
  all, so nothing is retried.
\<close>

theorem ProcessImage_corrupt_image:
  assumes "Decode ext imageContent = Inl err"
  shows "ProcessImage ext p imageContent pageNumber
           = (Inl (Wrapf ''error decoding image: '' err), [EvDecode imageContent])"
  using assms by (simp add: ProcessImage_def)

theorem ProcessImage_corrupt_image_witness:
  "Decode sample_externals [] = Inl (Errorf ''image: unknown format'')
   \<and> ProcessImage sample_externals sample_ollama [] 0
       = (Inl (Wrapf ''error decoding image: '' (Errorf ''image: unknown format'')), [EvDecode []])"
proof -
  have bad: "Decode sample_externals [] = Inl (Errorf ''image: unknown format'')"
    by (simp add: sample_externals_def)
  from ProcessImage_corrupt_image [OF bad] bad show ?thesis by simp
qed














section \<open>Properties of the re-OCR handler\<close>

lemma length_mapIdx [simp]: "length (mapIdx f xs) = length xs"
  by (simp add: mapIdx_def)

lemma nth_mapIdx [simp]: "j < length xs \<Longrightarrow> mapIdx f xs ! j = f (xs ! j) j"
  by (simp add: mapIdx_def nth_enumerate_eq)

text \<open>
  Claim C3. A re-OCR of page \<open>pageIdx\<close> leaves \<^verbatim>\<open>perPageResults\<close> at its length and every
  entry at another index as it was, and leaves the combined text \<^verbatim>\<open>ocrResult\<close> as it was,
  whatever the server answers. The entry at a valid \<open>pageIdx\<close> is replaced by the text and
  limit flag of the answer when the request succeeds.
\<close>

theorem handleReOcrPage_frame:
  "length (perPageResults (handleReOcrPage post pageIdx s)) = length (perPageResults s)
   \<and> (\<forall>j < length (perPageResults s). j \<noteq> pageIdx \<longrightarrow>
         perPageResults (handleReOcrPage post pageIdx s) ! j = perPageResults s ! j)
   \<and> ocrResult (handleReOcrPage post pageIdx s) = ocrResult s
   \<and> (\<forall>d. pageIdx < length (perPageResults s) \<and> post (documentId s) pageIdx = Inr d \<longrightarrow>
         perPageResults (handleReOcrPage post pageIdx s) ! pageIdx
           = \<lparr>text' = data_text d, ocrLimitHit = data_ocrLimitHit d, generationInfo = None\<rparr>)"
proof (intro conjI allI impI)
  show "length (perPageResults (handleReOcrPage post pageIdx s)) = length (perPageResults s)"
    by (simp add: handleReOcrPage_def Let_def split: sum.splits)
  show "perPageResults (handleReOcrPage post pageIdx s) ! j = perPageResults s ! j"
    if "j < length (perPageResults s)" "j \<noteq> pageIdx" for j
    using that by (simp add: handleReOcrPage_def Let_def split: sum.splits)
  show "ocrResult (handleReOcrPage post pageIdx s) = ocrResult s"
    by (simp add: handleReOcrPage_def Let_def split: sum.splits)
  show "perPageResults (handleReOcrPage post pageIdx s) ! pageIdx
           = \<lparr>text' = data_text d, ocrLimitHit = data_ocrLimitHit d, generationInfo = None\<rparr>"
    if "pageIdx < length (perPageResults s) \<and> post (documentId s) pageIdx = Inr d" for d
    using that by (simp add: handleReOcrPage_def Let_def)
qed

theorem handleReOcrPage_frame_witness:
  "(1::nat) < length (perPageResults sample_state)
   \<and> sample_post (documentId sample_state) 1 = Inr \<lparr>data_text = ''B2'', data_ocrLimitHit = False\<rparr>
   \<and> perPageResults (handleReOcrPage sample_post 1 sample_state)
       = [\<lparr>text' = ''A'', ocrLimitHit = False, generationInfo = None\<rparr>,
          \<lparr>text' = ''B2'', ocrLimitHit = False, generationInfo = None\<rparr>,
          \<lparr>text' = ''C'', ocrLimitHit = False, generationInfo = None\<rparr>]
   \<and> ocrResult (handleReOcrPage sample_post 1 sample_state) = ''ABC''"
proof -
  have len: "length (perPageResults sample_state) = 3"
    by (simp add: sample_state_def)
  have first: "perPageResults sample_state ! 0
                 = \<lparr>text' = ''A'', ocrLimitHit = False, generationInfo = None\<rparr>"
    and third: "perPageResults sample_state ! 2
                 = \<lparr>text' = ''C'', ocrLimitHit = False, generationInfo = None\<rparr>"
    by (simp_all add: sample_state_def)
  have answer: "sample_post (documentId sample_state) 1
                  = Inr \<lparr>data_text = ''B2'', data_ocrLimitHit = False\<rparr>"
    by (simp add: sample_post_def)
  have combined: "ocrResult sample_state = ''ABC''"
    by (simp add: sample_state_def)
  note frame = handleReOcrPage_frame [of sample_post 1 sample_state]
  from frame len have l: "length (perPageResults (handleReOcrPage sample_post 1 sample_state)) = 3"
    by simp
  from frame len first have e0: "perPageResults (handleReOcrPage sample_post 1 sample_state) ! 0
      = \<lparr>text' = ''A'', ocrLimitHit = False, generationInfo = None\<rparr>"
    by simp
  from frame len third have e2: "perPageResults (handleReOcrPage sample_post 1 sample_state) ! 2
      = \<lparr>text' = ''C'', ocrLimitHit = False, generationInfo = None\<rparr>"
    by simp
  from frame len answer have e1: "perPageResults (handleReOcrPage sample_post 1 sample_state) ! 1
      = \<lparr>text' = ''B2'', ocrLimitHit = False, generationInfo = None\<rparr>"
    by simp
  from frame combined have c: "ocrResult (handleReOcrPage sample_post 1 sample_state) = ''ABC''"
    by simp
  have "perPageResults (handleReOcrPage sample_post 1 sample_state)
       = [\<lparr>text' = ''A'', ocrLimitHit = False, generationInfo = None\<rparr>,
          \<lparr>text' = ''B2'', ocrLimitHit = False, generationInfo = None\<rparr>,
          \<lparr>text' = ''C'', ocrLimitHit = False, generationInfo = None\<rparr>]"
    using l e0 e1 e2 by (intro nth_equalityI) (auto simp: less_Suc_eq numeral_3_eq_3 numeral_2_eq_2)
  with len answer c show ?thesis by simp
qed

section \<open>Properties of start-up\<close>

lemma visionLlmProvider_defaultTags [simp]:
  "visionLlmProvider (defaultTags g0) = visionLlmProvider g0"
  by (simp add: defaultTags_def Let_def)

lemma validateOrDefaultEnvVars_Inr:
  assumes "validateOrDefaultEnvVars ext env g0 = Inr g"
  shows "g = defaultTags g0 \<or> (\<exists>parsed. g = (defaultTags g0)\<lparr>tokenLimit := parsed\<rparr>)"
  using assms unfolding validateOrDefaultEnvVars_def
  by (simp only: Let_def split: if_splits sum.splits) auto

lemma validateOrDefaultEnvVars_visionLlmProvider:
  assumes "validateOrDefaultEnvVars ext env g0 = Inr g"
  shows "visionLlmProvider g = visionLlmProvider g0"
  using validateOrDefaultEnvVars_Inr [OF assms] by auto

lemma startupBeforeOcr_Inr:
  assumes "startupBeforeOcr ext env = Inr pre"
  shows "pre_providerType pre
           = (if Getenv env ''OCR_PROVIDER'' = [] then ''llm'' else Getenv env ''OCR_PROVIDER'')"
    and "visionLlmProvider (pre_globals pre) = Getenv env ''VISION_LLM_PROVIDER''"
proof -
  from assms obtain g where
    v: "validateOrDefaultEnvVars ext env (initGlobals env) = Inr g"
    and p: "pre_globals pre = g"
       "pre_providerType pre
           = (if Getenv env ''OCR_PROVIDER'' = [] then ''llm'' else Getenv env ''OCR_PROVIDER'')"
    unfolding startupBeforeOcr_def Let_def
    by (auto split: sum.splits option.splits)
  show "pre_providerType pre
           = (if Getenv env ''OCR_PROVIDER'' = [] then ''llm'' else Getenv env ''OCR_PROVIDER'')"
    by (rule p(2))
  from validateOrDefaultEnvVars_visionLlmProvider [OF v] p(1)
  show "visionLlmProvider (pre_globals pre) = Getenv env ''VISION_LLM_PROVIDER''"
    by (simp add: initGlobals_def)
qed

lemma startupBeforeOcr_NewProvider:
  "startupBeforeOcr (ext\<lparr>NewProvider := np\<rparr>) env = startupBeforeOcr ext env"
proof -
  have v: "validateOrDefaultEnvVars (ext\<lparr>NewProvider := np\<rparr>) env g
             = validateOrDefaultEnvVars ext env g" for g
    by (simp add: validateOrDefaultEnvVars_def Let_def cong del: if_weak_cong)
  have l: "createLLM (ext\<lparr>NewProvider := np\<rparr>) env g = createLLM ext env g" for g
    by (simp add: createLLM_def Let_def cong: option.case_cong cong del: if_weak_cong)
  have w: "createVisionLLM (ext\<lparr>NewProvider := np\<rparr>) env g = createVisionLLM ext env g" for g
    by (simp add: createVisionLLM_def cong del: if_weak_cong)
  have t: "getLikelyLanguage (ext\<lparr>NewProvider := np\<rparr>) env = getLikelyLanguage ext env"
    by (simp add: getLikelyLanguage_def)
  show ?thesis
    by (simp add: startupBeforeOcr_def v l w t split: sum.splits option.splits)
qed

text \<open>
  Claim C8, as the code has it. \<^verbatim>\<open>main\<close> starts the OCR worker pool with the count one:
  whenever start-up gets as far as serving, the count it has passed to
  \<^verbatim>\<open>startWorkerPool\<close> is 1, whatever the environment and whatever the collaborators
  answer. The count is a constant of \<^verbatim>\<open>main\<close>; nothing configures it.
\<close>

theorem main_one_worker:
  assumes "main ext env = Inr st"
  shows "numWorkers st = 1"
  using assms unfolding main_def Let_def
  by (auto split: sum.splits if_splits)

text \<open>
  Claim C9. Let the OCR provider type be \<^verbatim>\<open>llm\<close> (\<^verbatim>\<open>OCR_PROVIDER\<close> unset, empty or
  \<^verbatim>\<open>llm\<close>) and \<^verbatim>\<open>VISION_LLM_PROVIDER\<close> unset or empty. Then the OCR step of start-up never
  ends the process: when the steps before it succeed, \<^verbatim>\<open>main\<close> goes on to serve, with the
  OCR provider nil and \<^verbatim>\<open>isOcrEnabled\<close> false; when one of them ends the process, that is
  the outcome of \<^verbatim>\<open>main\<close>. \<^verbatim>\<open>ocr.NewProvider\<close> is not consulted: replacing it changes
  nothing.
\<close>

theorem main_llm_without_vision_provider:
  assumes "Getenv env ''OCR_PROVIDER'' = [] \<or> Getenv env ''OCR_PROVIDER'' = ''llm''"
    and "Getenv env ''VISION_LLM_PROVIDER'' = []"
  shows "(\<forall>pre. startupBeforeOcr ext env = Inr pre \<longrightarrow>
            (\<exists>st. main ext env = Inr st \<and> ocrProvider (app st) = None
                  \<and> \<not> isOcrEnabled (app st)))
       \<and> (\<forall>f. startupBeforeOcr ext env = Inl f \<longrightarrow> main ext env = Inl f)
       \<and> main (ext\<lparr>NewProvider := np\<rparr>) env = main ext env"
proof (intro conjI allI impI)
  fix pre
  assume pre: "startupBeforeOcr ext env = Inr pre"
  from startupBeforeOcr_Inr [OF pre] assms
  have "initOcrProvider ext env pre = Inr None"
    by (auto simp: initOcrProvider_def)
  with pre show "\<exists>st. main ext env = Inr st \<and> ocrProvider (app st) = None
                  \<and> \<not> isOcrEnabled (app st)"
    by (simp add: main_def isOcrEnabled_def Let_def)
next
  fix f
  assume "startupBeforeOcr ext env = Inl f"
  then show "main ext env = Inl f" by (simp add: main_def)
next
  have same: "startupBeforeOcr (ext\<lparr>NewProvider := np\<rparr>) env = startupBeforeOcr ext env"
    by (rule startupBeforeOcr_NewProvider)
  show "main (ext\<lparr>NewProvider := np\<rparr>) env = main ext env"
  proof (cases "startupBeforeOcr ext env")
    case (Inl f)
    with same show ?thesis by (simp add: main_def)
  next
    case (Inr pre)
    from startupBeforeOcr_Inr [OF Inr] assms
    have "initOcrProvider ext env pre = Inr None"
      "initOcrProvider (ext\<lparr>NewProvider := np\<rparr>) env pre = Inr None"
      by (auto simp: initOcrProvider_def)
    with Inr same show ?thesis
      by (simp add: main_def isOcrEnabled_def Let_def)
  qed
qed

lemma Getenv_sample_environ:
  "Getenv sample_environ ''OCR_PROVIDER'' = []"
  "Getenv sample_environ ''VISION_LLM_PROVIDER'' = []"
  by (simp_all add: Getenv_def sample_environ_def)

lemma Getenv_sample_environ_set:
  "Getenv sample_environ ''PAPERLESS_BASE_URL'' = ''http://paperless:8000''"
  "Getenv sample_environ ''PAPERLESS_API_TOKEN'' = ''token''"
  "Getenv sample_environ ''LLM_PROVIDER'' = ''ollama''"
  "Getenv sample_environ ''LLM_MODEL'' = ''llama3''"
  by (simp_all add: Getenv_def sample_environ_def)

lemma Getenv_sample_environ_unset:
  "Getenv sample_environ ''AZURE_DOCAI_ENDPOINT'' = []"
  "Getenv sample_environ ''AZURE_DOCAI_KEY'' = []"
  "Getenv sample_environ ''AZURE_DOCAI_MODEL_ID'' = []"
  "Getenv sample_environ ''AZURE_DOCAI_TIMEOUT_SECONDS'' = []"
  "Getenv sample_environ ''AZURE_DOCAI_OUTPUT_CONTENT_FORMAT'' = []"
  "Getenv sample_environ ''OPENAI_API_KEY'' = []"
  "Getenv sample_environ ''MANUAL_TAG'' = []"
  "Getenv sample_environ ''AUTO_TAG'' = []"
  "Getenv sample_environ ''MANUAL_OCR_TAG'' = []"
  "Getenv sample_environ ''AUTO_OCR_TAG'' = []"
  "Getenv sample_environ ''VISION_LLM_MODEL'' = []"
  "Getenv sample_environ ''LOG_LEVEL'' = []"
  "Getenv sample_environ ''LISTEN_INTERFACE'' = []"
  "Getenv sample_environ ''TOKEN_LIMIT'' = []"
  "Getenv sample_environ ''LLM_LANGUAGE'' = []"
  "Getenv sample_environ ''OLLAMA_HOST'' = []"
  by (simp_all add: Getenv_def sample_environ_def)

lemma sample_defaultTags: "defaultTags (initGlobals sample_environ) = sample_globals"
  by (simp add: initGlobals_def defaultTags_def sample_globals_def Getenv_sample_environ
        Getenv_sample_environ_set Getenv_sample_environ_unset ToLower_def)

lemma sample_validate:
  "validateOrDefaultEnvVars sample_startup sample_environ (initGlobals sample_environ)
     = Inr sample_globals"
  unfolding validateOrDefaultEnvVars_def sample_defaultTags
  by (simp add: sample_globals_def Getenv_sample_environ Getenv_sample_environ_unset)

lemma sample_like_startupBeforeOcr:
  assumes agree: "\<And>k. k \<noteq> ''NUM_WORKERS'' \<Longrightarrow> k \<noteq> ''OCR_WORKERS'' \<Longrightarrow> env k = sample_environ k"
  shows "startupBeforeOcr sample_startup env
     = Inr \<lparr>pre_globals = sample_globals, pre_llm = Some (fixed_Model None),
            pre_visionLlm = None, pre_providerType = ''llm'',
            pre_ocrPrompt = ''Transcribe. Language: English''\<rparr>"
proof -
  have same: "Getenv env k = Getenv sample_environ k"
    if "k \<noteq> ''NUM_WORKERS''" "k \<noteq> ''OCR_WORKERS''" for k
    using agree [OF that] by (simp add: Getenv_def)
  have globals: "initGlobals env = initGlobals sample_environ"
    by (simp add: initGlobals_def same)
  have validate: "validateOrDefaultEnvVars sample_startup env (initGlobals env) = Inr sample_globals"
    unfolding validateOrDefaultEnvVars_def globals sample_defaultTags
    by (simp add: sample_globals_def same Getenv_sample_environ Getenv_sample_environ_unset)
  have language: "getLikelyLanguage sample_startup env = ''English''"
    by (simp add: getLikelyLanguage_def same Getenv_sample_environ_unset sample_startup_def
          Title_def isSeparator_def toUpperChar_def ToLower_def toLowerChar_def)
  have logger: "initLogger sample_globals = None"
    by (simp add: initLogger_def sample_globals_def)
  have llm: "createLLM sample_startup env sample_globals = Inr (Some (fixed_Model None))"
    by (simp add: createLLM_def sample_globals_def sample_startup_def)
  have vision: "createVisionLLM sample_startup env sample_globals = Inr None"
    by (simp add: createVisionLLM_def sample_globals_def ToLower_def)
  have ext: "InitializeDB sample_startup = None" "loadTemplates sample_startup = None"
    "ocrTemplate_Execute sample_startup ''English'' = Inr ''Transcribe. Language: English''"
    by (simp_all add: sample_startup_def)
  show ?thesis
    unfolding startupBeforeOcr_def
    by (simp add: validate logger llm vision ext language same Getenv_sample_environ)
qed

lemma sample_like_main:
  assumes agree: "\<And>k. k \<noteq> ''NUM_WORKERS'' \<Longrightarrow> k \<noteq> ''OCR_WORKERS'' \<Longrightarrow> env k = sample_environ k"
  shows "main sample_startup env
     = Inr \<lparr>app = \<lparr>App_LLM = Some (fixed_Model None), VisionLLM = None, ocrProvider = None\<rparr>,
            serving_globals = sample_globals\<lparr>listenInterface := '':8080''\<rparr>,
            numWorkers = 1, listen = '':8080''\<rparr>"
proof -
  have pre: "startupBeforeOcr sample_startup env
     = Inr \<lparr>pre_globals = sample_globals, pre_llm = Some (fixed_Model None),
            pre_visionLlm = None, pre_providerType = ''llm'',
            pre_ocrPrompt = ''Transcribe. Language: English''\<rparr>"
    by (rule sample_like_startupBeforeOcr) (rule agree)
  have init: "initOcrProvider sample_startup env
          \<lparr>pre_globals = sample_globals, pre_llm = Some (fixed_Model None),
           pre_visionLlm = None, pre_providerType = ''llm'',
           pre_ocrPrompt = ''Transcribe. Language: English''\<rparr> = Inr None"
    by (simp add: initOcrProvider_def sample_globals_def)
  show ?thesis
    by (simp add: main_def pre init isOcrEnabled_def) (simp add: sample_globals_def)
qed

lemma sample_startupBeforeOcr:
  "startupBeforeOcr sample_startup sample_environ
     = Inr \<lparr>pre_globals = sample_globals, pre_llm = Some (fixed_Model None),
            pre_visionLlm = None, pre_providerType = ''llm'',
            pre_ocrPrompt = ''Transcribe. Language: English''\<rparr>"
  by (rule sample_like_startupBeforeOcr) simp

theorem main_llm_without_vision_provider_witness:
  "(Getenv sample_environ ''OCR_PROVIDER'' = [] \<or> Getenv sample_environ ''OCR_PROVIDER'' = ''llm'')
   \<and> Getenv sample_environ ''VISION_LLM_PROVIDER'' = []
   \<and> \<not> isl (main sample_startup sample_environ)
   \<and> ocrProvider (app (projr (main sample_startup sample_environ))) = None
   \<and> \<not> isOcrEnabled (app (projr (main sample_startup sample_environ)))"
proof -
  have prov: "Getenv sample_environ ''OCR_PROVIDER'' = []
                \<or> Getenv sample_environ ''OCR_PROVIDER'' = ''llm''"
    by (simp add: Getenv_sample_environ)
  have vis: "Getenv sample_environ ''VISION_LLM_PROVIDER'' = []"
    by (rule Getenv_sample_environ)
  obtain pre where pre: "startupBeforeOcr sample_startup sample_environ = Inr pre"
    using sample_startupBeforeOcr by simp
  from main_llm_without_vision_provider [OF prov vis, of sample_startup] pre
  obtain st where "main sample_startup sample_environ = Inr st"
    "ocrProvider (app st) = None" "\<not> isOcrEnabled (app st)"
    by blast
  with prov vis show ?thesis by simp
qed

theorem main_one_worker_witness:
  "\<not> isl (main sample_startup sample_environ)
   \<and> numWorkers (projr (main sample_startup sample_environ)) = 1"
proof -
  have "\<not> isl (main sample_startup sample_environ)"
    by (simp add: sample_like_main)
  then obtain st where st: "main sample_startup sample_environ = Inr st"
    by (cases "main sample_startup sample_environ") simp_all
  from main_one_worker [OF st] st show ?thesis by simp
qed

text \<open>
  The claim as the spec has it, a count that is configurable, fails on an environment
  that asks for four workers: start-up succeeds there and the count is one all the same.
\<close>

theorem main_worker_count_counterexample:
  "Getenv sample_environ_four_workers ''NUM_WORKERS'' = ''4''
   \<and> Getenv sample_environ_four_workers ''OCR_WORKERS'' = ''4''
   \<and> \<not> isl (main sample_startup sample_environ_four_workers)
   \<and> numWorkers (projr (main sample_startup sample_environ_four_workers)) = 1"
proof -
  have agree: "sample_environ_four_workers k = sample_environ k"
    if "k \<noteq> ''NUM_WORKERS''" "k \<noteq> ''OCR_WORKERS''" for k
    using that by (simp add: sample_environ_four_workers_def)
  have asked: "Getenv sample_environ_four_workers ''NUM_WORKERS'' = ''4''"
    "Getenv sample_environ_four_workers ''OCR_WORKERS'' = ''4''"
    by (simp_all add: Getenv_def sample_environ_four_workers_def)
  from sample_like_main [of sample_environ_four_workers, OF agree] asked
  show ?thesis by simp
qed

end
